theory Spec2Isabelle
  imports Main "HOL-Library.Sublist"
begin

section \<open>The developer chat client of \<^verbatim>\<open>dev_frontend.py\<close>\<close>

text \<open>
  The source is one Python file: a small HTTP client (\<^verbatim>\<open>APIClient\<close>) with a bounded
  retry loop, and a Streamlit script (\<^verbatim>\<open>main\<close>) that keeps a chat transcript in the
  session state. The embedding below follows the file from top to bottom. What the
  program does to the outside is made explicit: every call of \<^verbatim>\<open>requests.get\<close> and of
  \<^verbatim>\<open>time.sleep\<close> is an entry of an effect list, and what the network answers is an
  argument of the model. Strings are byte lists (UTF-8).
\<close>

subsection \<open>Constants (lines 9 to 11)\<close>

definition DEFAULT_ERROR_MESSAGE :: string where
  "DEFAULT_ERROR_MESSAGE = ''An error occurred while communicating with the API''"

definition RETRY_ATTEMPTS :: nat where
  "RETRY_ATTEMPTS = 3"

definition RETRY_DELAY :: nat where
  "RETRY_DELAY = 1"

subsection \<open>Python values and exceptions\<close>

text \<open>
  The objects that \<^verbatim>\<open>response.json()\<close> can return: \<^verbatim>\<open>None\<close>, a bool, an int, a float
  (kept as its literal text; the program never computes with it), a str, a list or a dict
  with string keys. A dict is an association list that is read with \<open>map_of\<close>.
\<close>

datatype pyvalue =
    PyNone
  | PyBool bool
  | PyInt int
  | PyFloat string
  | PyStr string
  | PyList "pyvalue list"
  | PyDict "(string \<times> pyvalue) list"

type_synonym pydict = "(string \<times> pyvalue) list"

text \<open>
  The two \<^verbatim>\<open>except\<close> clauses of \<^verbatim>\<open>send_message\<close> tell exceptions apart by class only:
  an instance of \<^verbatim>\<open>requests.exceptions.RequestException\<close> (connection errors, timeouts,
  the \<^verbatim>\<open>HTTPError\<close> of \<^verbatim>\<open>raise_for_status\<close>, ...) or any other \<^verbatim>\<open>Exception\<close>, of which
  the program reads \<^verbatim>\<open>str(e)\<close>. A computation that may raise has the type \<open>exn + 'a\<close>:
  \<open>Inl e\<close> raises \<open>e\<close>, \<open>Inr v\<close> returns \<open>v\<close>.
\<close>

datatype exn =
    RequestException
  | OtherException string

definition type_name :: "pyvalue \<Rightarrow> string" where
  "type_name v =
     (case v of
        PyNone \<Rightarrow> ''NoneType''
      | PyBool _ \<Rightarrow> ''bool''
      | PyInt _ \<Rightarrow> ''int''
      | PyFloat _ \<Rightarrow> ''float''
      | PyStr _ \<Rightarrow> ''str''
      | PyList _ \<Rightarrow> ''list''
      | PyDict _ \<Rightarrow> ''dict'')"

definition quoted :: "string \<Rightarrow> string" where
  "quoted s = CHR 0x27 # s @ [CHR 0x27]"

text \<open>
  \<^verbatim>\<open>key in obj\<close> for a string \<open>key\<close>: key membership for a dict, element membership
  for a list (a str equals only a str), substring test for a str, and a \<^verbatim>\<open>TypeError\<close>
  for the values that are no containers. The messages are worded as CPython 3.12 words
  them.
\<close>

definition py_contains :: "string \<Rightarrow> pyvalue \<Rightarrow> exn + bool" where
  "py_contains key obj =
     (case obj of
        PyDict kvs \<Rightarrow> Inr (key \<in> fst ` set kvs)
      | PyList xs \<Rightarrow> Inr (PyStr key \<in> set xs)
      | PyStr s \<Rightarrow> Inr (sublist key s)
      | _ \<Rightarrow> Inl (OtherException
                (''argument of type '' @ quoted (type_name obj) @ '' is not iterable'')))"

text \<open>\<^verbatim>\<open>obj[key]\<close> for a string \<open>key\<close>.\<close>

definition py_getitem :: "pyvalue \<Rightarrow> string \<Rightarrow> exn + pyvalue" where
  "py_getitem obj key =
     (case obj of
        PyDict kvs \<Rightarrow>
          (case map_of kvs key of
             Some v \<Rightarrow> Inr v
           | None \<Rightarrow> Inl (OtherException (quoted key)))
      | PyList _ \<Rightarrow> Inl (OtherException ''list indices must be integers or slices, not str'')
      | PyStr _ \<Rightarrow>
          Inl (OtherException (''string indices must be integers, not '' @ quoted ''str''))
      | _ \<Rightarrow> Inl (OtherException
                (quoted (type_name obj) @ '' object is not subscriptable'')))"

text \<open>\<^verbatim>\<open>str.rstrip(chars)\<close>: drop every trailing character that occurs in \<open>chars\<close>.\<close>

definition rstrip :: "string \<Rightarrow> string \<Rightarrow> string" where
  "rstrip chars s = rev (dropWhile (\<lambda>c. c \<in> set chars) (rev s))"

subsection \<open>The network and the effects\<close>

text \<open>
  A response of \<^verbatim>\<open>requests.get\<close>, as far as the program reads it: the status code, and
  what \<^verbatim>\<open>response.json()\<close> does: it returns the parsed body or raises. For a body that
  is no JSON it raises requests' \<^verbatim>\<open>JSONDecodeError\<close>, which is a \<^verbatim>\<open>RequestException\<close>
  (\<open>Inl RequestException\<close>).
\<close>

record response =
  status_code :: int
  json :: "exn + pyvalue"

text \<open>
  The network gives, for the attempt with index \<open>i\<close> of one method call, what
  \<^verbatim>\<open>requests.get\<close> does: it returns a response or raises.
\<close>

type_synonym network = "nat \<Rightarrow> exn + response"

text \<open>
  A query parameter is a string; the \<^verbatim>\<open>customer_info\<close> parameter is the text
  \<^verbatim>\<open>json.dumps(customer_info)\<close>, which is kept here as the dict to be serialised.
\<close>

datatype param =
    Text string
  | JsonDumps pydict

datatype effect =
    HttpGet string "(string \<times> param) list" nat
  | Sleep nat

text \<open>
  \<^verbatim>\<open>Response.raise_for_status\<close>: an \<^verbatim>\<open>HTTPError\<close>, which is a
  \<^verbatim>\<open>RequestException\<close>, for a status from 400 to 599.
\<close>

definition raise_for_status :: "response \<Rightarrow> exn + unit" where
  "raise_for_status r =
     (if 400 \<le> status_code r \<and> status_code r < 600 then Inl RequestException else Inr ())"

subsection \<open>\<^verbatim>\<open>APIClient\<close> (lines 13 to 67)\<close>

record APIClient =
  base_url :: string
  sender_id :: string

text \<open>The constructor; the fresh \<^verbatim>\<open>uuid.uuid4()\<close> is an argument.\<close>

definition APIClient_init :: "string \<Rightarrow> string \<Rightarrow> APIClient" where
  "APIClient_init url uuid4 = \<lparr>base_url = rstrip ''/'' url, sender_id = uuid4\<rparr>"

definition test_request :: "APIClient \<Rightarrow> effect" where
  "test_request self = HttpGet (base_url self @ ''/test'') [] 5"

text \<open>
  \<^verbatim>\<open>test_connection\<close>: the loop over \<^verbatim>\<open>range(RETRY_ATTEMPTS)\<close> is a recursion over the
  list of attempt indices. Only a \<^verbatim>\<open>RequestException\<close> is caught; any other exception
  leaves the method (\<open>Inl\<close>).
\<close>

fun test_connection_loop :: "APIClient \<Rightarrow> network \<Rightarrow> nat list \<Rightarrow> effect list \<times> (exn + bool)" where
  "test_connection_loop self net [] = ([], Inr False)"
| "test_connection_loop self net (attempt # rest) =
     (case net attempt of
        Inr resp \<Rightarrow> ([test_request self], Inr (status_code resp = 200))
      | Inl RequestException \<Rightarrow>
          (case test_connection_loop self net rest of
             (effs, res) \<Rightarrow>
               (test_request self
                  # (if attempt < RETRY_ATTEMPTS - 1 then [Sleep RETRY_DELAY] else []) @ effs,
                res))
      | Inl (OtherException m) \<Rightarrow> ([test_request self], Inl (OtherException m)))"

definition test_connection :: "APIClient \<Rightarrow> network \<Rightarrow> effect list \<times> (exn + bool)" where
  "test_connection self net = test_connection_loop self net [0..<RETRY_ATTEMPTS]"

text \<open>
  The dicts that \<^verbatim>\<open>send_message\<close> builds have the keys \<^verbatim>\<open>"response"\<close> and \<^verbatim>\<open>"error"\<close>
  only, and what stands under \<^verbatim>\<open>"error"\<close> is a str: a record of two optional entries.
\<close>

record reply =
  response_key :: "pyvalue option"
  error_key :: "string option"

definition response_reply :: "pyvalue \<Rightarrow> reply" where
  "response_reply v = \<lparr>response_key = Some v, error_key = None\<rparr>"

definition error_reply :: "string \<Rightarrow> reply" where
  "error_reply e = \<lparr>response_key = None, error_key = Some e\<rparr>"

definition send_request :: "APIClient \<Rightarrow> string \<Rightarrow> pydict \<Rightarrow> effect" where
  "send_request self message cinfo =
     HttpGet (base_url self @ ''/response'')
       [(''query'', Text message), (''senderId'', Text (sender_id self)),
        (''customer_info'', JsonDumps cinfo)]
       30"

text \<open>
  The body of the \<^verbatim>\<open>try\<close> block after \<^verbatim>\<open>requests.get\<close> (lines 52 to 59), given what
  the call did: it returns a dict or raises.
\<close>

definition try_body :: "exn + response \<Rightarrow> exn + reply" where
  "try_body got =
     (case got of
        Inl e \<Rightarrow> Inl e
      | Inr resp \<Rightarrow>
          (case raise_for_status resp of
             Inl e \<Rightarrow> Inl e
           | Inr _ \<Rightarrow>
               (case json resp of
                  Inl e \<Rightarrow> Inl e
                | Inr response_data \<Rightarrow>
                    (case py_contains ''result'' response_data of
                       Inl e \<Rightarrow> Inl e
                     | Inr True \<Rightarrow>
                         (case py_getitem response_data ''result'' of
                            Inl e \<Rightarrow> Inl e
                          | Inr v \<Rightarrow> Inr (response_reply v))
                     | Inr False \<Rightarrow> Inr (error_reply ''Invalid response format from API'')))))"

fun send_message_loop ::
  "APIClient \<Rightarrow> string \<Rightarrow> pydict \<Rightarrow> network \<Rightarrow> nat list \<Rightarrow> effect list \<times> reply" where
  "send_message_loop self message cinfo net [] = ([], error_reply DEFAULT_ERROR_MESSAGE)"
| "send_message_loop self message cinfo net (attempt # rest) =
     (case try_body (net attempt) of
        Inr d \<Rightarrow> ([send_request self message cinfo], d)
      | Inl RequestException \<Rightarrow>
          (case send_message_loop self message cinfo net rest of
             (effs, d) \<Rightarrow>
               (send_request self message cinfo
                  # (if attempt < RETRY_ATTEMPTS - 1 then [Sleep RETRY_DELAY] else []) @ effs,
                d))
      | Inl (OtherException m) \<Rightarrow>
          ([send_request self message cinfo], error_reply (''Error: '' @ m)))"

definition send_message ::
  "APIClient \<Rightarrow> string \<Rightarrow> pydict \<Rightarrow> network \<Rightarrow> effect list \<times> reply" where
  "send_message self message cinfo net =
     send_message_loop self message cinfo net [0..<RETRY_ATTEMPTS]"

subsection \<open>The session state and the chat input of \<^verbatim>\<open>main\<close> (lines 69 to 80, 220 to 253)\<close>

record ChatMessage =
  role :: string
  content :: pyvalue
  timestamp :: string

record session_state =
  messages :: "ChatMessage list"
  api_url :: string
  api_status :: bool
  api_client :: "APIClient option"
  customer_info :: pydict

text \<open>The session state of a fresh session, after \<^verbatim>\<open>init_session_state\<close> has run.\<close>

definition init_session_state :: session_state where
  "init_session_state =
     \<lparr>messages = [], api_url = [], api_status = False, api_client = None, customer_info = []\<rparr>"

text \<open>The marker of line 243, U+1F6AB in UTF-8.\<close>

definition error_marker :: string where
  "error_marker = [CHR 0xF0, CHR 0x9F, CHR 0x9A, CHR 0xAB]"

text \<open>Lines 242 to 245: the text of the assistant's message.\<close>

definition reply_content :: "reply \<Rightarrow> pyvalue" where
  "reply_content r =
     (case error_key r of
        Some e \<Rightarrow> PyStr (error_marker @ '' '' @ e)
      | None \<Rightarrow>
          (case response_key r of
             Some v \<Rightarrow> v
           | None \<Rightarrow> PyStr ''No response received''))"

text \<open>How one run of the script ends after the chat input.\<close>

datatype run_end =
    Finished
  | Rerun
  | Uncaught string

text \<open>
  The widget is created with \<^verbatim>\<open>disabled=not st.session_state.api_status\<close>; what it
  returns (\<^verbatim>\<open>None\<close>, or the text the user submitted) is an argument of the model, as are
  the two readings of the clock. The source does not test the flag again before it
  uses the prompt: its only test of \<^verbatim>\<open>api_status\<close> is the one of line 234.
\<close>

definition chat_input_disabled :: "session_state \<Rightarrow> bool" where
  "chat_input_disabled st = (\<not> api_status st)"

definition chat_input_section ::
  "session_state \<Rightarrow> string option \<Rightarrow> string \<Rightarrow> string \<Rightarrow> network
     \<Rightarrow> session_state \<times> effect list \<times> run_end" where
  "chat_input_section st prompt now1 now2 net =
     (case prompt of
        None \<Rightarrow> (st, [], Finished)
      | Some p \<Rightarrow>
          if p = [] then (st, [], Finished)
          else
            (let st1 = st\<lparr>messages := messages st
                          @ [\<lparr>role = ''user'', content = PyStr p, timestamp = now1\<rparr>]\<rparr>
             in if api_status st1 then
                  (case api_client st1 of
                     None \<Rightarrow>
                       (st1, [],
                        Uncaught (quoted ''NoneType'' @ '' object has no attribute ''
                                  @ quoted ''send_message''))
                   | Some client \<Rightarrow>
                       (case send_message client p (customer_info st1) net of
                          (effs, r) \<Rightarrow>
                            (st1\<lparr>messages := messages st1
                                   @ [\<lparr>role = ''assistant'', content = reply_content r,
                                       timestamp = now2\<rparr>]\<rparr>,
                             effs, Rerun)))
                else (st1, [], Finished)))"

text \<open>The URLs a list of effects requests, in order.\<close>

fun request_urls :: "effect list \<Rightarrow> string list" where
  "request_urls [] = []"
| "request_urls (HttpGet url _ _ # effs) = url # request_urls effs"
| "request_urls (Sleep _ # effs) = request_urls effs"

section \<open>Auxiliary facts\<close>

lemma range_RETRY_ATTEMPTS: "[0..<RETRY_ATTEMPTS] = [0, 1, 2]"
  by (simp add: RETRY_ATTEMPTS_def upt_rec)

lemma test_connection_response:
  assumes "k < RETRY_ATTEMPTS" and "\<forall>i<k. net i = Inl RequestException" and "net k = Inr r"
  shows "test_connection self net =
           (concat (replicate k [test_request self, Sleep RETRY_DELAY]) @ [test_request self],
            Inr (status_code r = 200))"
proof -
  from assms(1) consider "k = 0" | "k = 1" | "k = 2"
    unfolding RETRY_ATTEMPTS_def by linarith
  then show ?thesis
  proof cases
    case 1
    with assms(3) show ?thesis
      unfolding test_connection_def range_RETRY_ATTEMPTS by (simp add: RETRY_ATTEMPTS_def)
  next
    case 2
    with assms(2,3) show ?thesis
      unfolding test_connection_def range_RETRY_ATTEMPTS by (simp add: RETRY_ATTEMPTS_def)
  next
    case 3
    with assms(2,3) have "net 0 = Inl RequestException" "net 1 = Inl RequestException" "net 2 = Inr r"
      by simp_all
    then show ?thesis using 3
      unfolding test_connection_def range_RETRY_ATTEMPTS by (simp add: RETRY_ATTEMPTS_def numeral_2_eq_2)
  qed
qed

lemma test_connection_exhausted:
  assumes "\<forall>i<RETRY_ATTEMPTS. net i = Inl RequestException"
  shows "test_connection self net =
           ([test_request self, Sleep RETRY_DELAY, test_request self, Sleep RETRY_DELAY,
             test_request self], Inr False)"
proof -
  from assms have "net 0 = Inl RequestException" "net 1 = Inl RequestException"
      "net 2 = Inl RequestException"
    by (simp_all add: RETRY_ATTEMPTS_def)
  then show ?thesis
    unfolding test_connection_def range_RETRY_ATTEMPTS by (simp add: RETRY_ATTEMPTS_def)
qed

lemma send_message_returns:
  assumes "k < RETRY_ATTEMPTS" and "\<forall>i<k. try_body (net i) = Inl RequestException"
    and "try_body (net k) = Inr d"
  shows "send_message self message cinfo net =
           (concat (replicate k [send_request self message cinfo, Sleep RETRY_DELAY])
              @ [send_request self message cinfo], d)"
proof -
  from assms(1) consider "k = 0" | "k = 1" | "k = 2"
    unfolding RETRY_ATTEMPTS_def by linarith
  then show ?thesis
  proof cases
    case 1
    with assms(3) show ?thesis
      unfolding send_message_def range_RETRY_ATTEMPTS by (simp add: RETRY_ATTEMPTS_def)
  next
    case 2
    with assms(2,3) show ?thesis
      unfolding send_message_def range_RETRY_ATTEMPTS by (simp add: RETRY_ATTEMPTS_def)
  next
    case 3
    with assms(2,3) have "try_body (net 0) = Inl RequestException"
        "try_body (net 1) = Inl RequestException" "try_body (net 2) = Inr d"
      by simp_all
    then show ?thesis using 3
      unfolding send_message_def range_RETRY_ATTEMPTS by (simp add: RETRY_ATTEMPTS_def numeral_2_eq_2)
  qed
qed

lemma send_message_other:
  assumes "k < RETRY_ATTEMPTS" and "\<forall>i<k. try_body (net i) = Inl RequestException"
    and "try_body (net k) = Inl (OtherException m)"
  shows "send_message self message cinfo net =
           (concat (replicate k [send_request self message cinfo, Sleep RETRY_DELAY])
              @ [send_request self message cinfo], error_reply (''Error: '' @ m))"
proof -
  from assms(1) consider "k = 0" | "k = 1" | "k = 2"
    unfolding RETRY_ATTEMPTS_def by linarith
  then show ?thesis
  proof cases
    case 1
    with assms(3) show ?thesis
      unfolding send_message_def range_RETRY_ATTEMPTS by (simp add: RETRY_ATTEMPTS_def)
  next
    case 2
    with assms(2,3) show ?thesis
      unfolding send_message_def range_RETRY_ATTEMPTS by (simp add: RETRY_ATTEMPTS_def)
  next
    case 3
    with assms(2,3) have "try_body (net 0) = Inl RequestException"
        "try_body (net 1) = Inl RequestException" "try_body (net 2) = Inl (OtherException m)"
      by simp_all
    then show ?thesis using 3
      unfolding send_message_def range_RETRY_ATTEMPTS by (simp add: RETRY_ATTEMPTS_def numeral_2_eq_2)
  qed
qed

lemma send_message_exhausted:
  assumes "\<forall>i<RETRY_ATTEMPTS. try_body (net i) = Inl RequestException"
  shows "send_message self message cinfo net =
           ([send_request self message cinfo, Sleep RETRY_DELAY,
             send_request self message cinfo, Sleep RETRY_DELAY,
             send_request self message cinfo], error_reply DEFAULT_ERROR_MESSAGE)"
proof -
  from assms have "try_body (net 0) = Inl RequestException"
      "try_body (net 1) = Inl RequestException" "try_body (net 2) = Inl RequestException"
    by (simp_all add: RETRY_ATTEMPTS_def)
  then show ?thesis
    unfolding send_message_def range_RETRY_ATTEMPTS by (simp add: RETRY_ATTEMPTS_def)
qed

lemma try_body_raise [simp]: "try_body (Inl e) = Inl e"
  by (simp add: try_body_def)

lemma try_body_http_failure:
  "400 \<le> status_code r \<Longrightarrow> status_code r < 600 \<Longrightarrow> try_body (Inr r) = Inl RequestException"
  by (simp add: try_body_def raise_for_status_def)

lemma try_body_result:
  assumes "\<not> (400 \<le> status_code r \<and> status_code r < 600)" and "json r = Inr (PyDict kvs)"
    and "map_of kvs ''result'' = Some v"
  shows "try_body (Inr r) = Inr (response_reply v)"
proof -
  from assms(3) have "''result'' \<in> fst ` set kvs"
    by (metis domI dom_map_of_conv_image_fst)
  with assms show ?thesis
    by (simp add: try_body_def raise_for_status_def py_contains_def py_getitem_def)
qed

lemma try_body_json_raises:
  "\<not> (400 \<le> status_code r \<and> status_code r < 600) \<Longrightarrow> json r = Inl e \<Longrightarrow> try_body (Inr r) = Inl e"
  by (auto simp: try_body_def raise_for_status_def)

lemma try_body_not_contained:
  assumes "\<not> (400 \<le> status_code r \<and> status_code r < 600)" and "json r = Inr body"
    and "py_contains ''result'' body = Inr False"
  shows "try_body (Inr r) = Inr (error_reply ''Invalid response format from API'')"
  using assms by (auto simp: try_body_def raise_for_status_def)

lemma send_message_loop_cong:
  assumes "\<forall>i. try_body (net i) = try_body (net' i)"
  shows "send_message_loop self message cinfo net as = send_message_loop self message cinfo net' as"
proof (induction as)
  case Nil
  show ?case by simp
next
  case (Cons attempt rest)
  from assms have "try_body (net attempt) = try_body (net' attempt)" by simp
  with Cons show ?case by (simp split: sum.splits exn.splits)
qed

lemma request_urls_test_loop:
  "set (request_urls (fst (test_connection_loop self net as))) =
     (if as = [] then {} else {base_url self @ ''/test''})"
proof (induction as)
  case Nil
  show ?case by simp
next
  case (Cons attempt rest)
  show ?case
  proof (cases "net attempt")
    case (Inr resp)
    then show ?thesis by (simp add: test_request_def)
  next
    case (Inl e)
    show ?thesis
    proof (cases e)
      case RequestException
      with Inl Cons show ?thesis
        by (cases "test_connection_loop self net rest") (simp add: test_request_def)
    next
      case (OtherException m)
      with Inl show ?thesis by (simp add: test_request_def)
    qed
  qed
qed

lemma request_urls_send_loop:
  "set (request_urls (fst (send_message_loop self message cinfo net as))) =
     (if as = [] then {} else {base_url self @ ''/response''})"
proof (induction as)
  case Nil
  show ?case by simp
next
  case (Cons attempt rest)
  show ?case
  proof (cases "try_body (net attempt)")
    case (Inr d)
    then show ?thesis by (simp add: send_request_def)
  next
    case (Inl e)
    show ?thesis
    proof (cases e)
      case RequestException
      with Inl Cons show ?thesis
        by (cases "send_message_loop self message cinfo net rest") (simp add: send_request_def)
    next
      case (OtherException m)
      with Inl show ?thesis by (simp add: send_request_def)
    qed
  qed
qed

lemma rstrip_decompose:
  "\<exists>n. s = rstrip [c] s @ replicate n c"
proof -
  define t where "t = takeWhile (\<lambda>x. x = c) (rev s)"
  define d where "d = dropWhile (\<lambda>x. x = c) (rev s)"
  have "rev s = t @ d"
    by (simp add: t_def d_def)
  then have "rev (rev s) = rev d @ rev t"
    by simp
  then have s: "s = rev d @ rev t"
    by simp
  have "\<forall>y\<in>set t. y = c"
    by (auto simp: t_def dest: set_takeWhileD)
  then have "replicate (length t) c = t"
    by (rule replicate_length_same)
  then have "rev t = replicate (length t) c"
    by (metis rev_replicate)
  moreover have "rstrip [c] s = rev d"
    by (simp add: rstrip_def d_def)
  ultimately have "s = rstrip [c] s @ replicate (length t) c"
    using s by simp
  then show ?thesis ..
qed

lemma rstrip_no_trailing: "\<not> suffix [c] (rstrip [c] s)"
proof
  assume "suffix [c] (rstrip [c] s)"
  then obtain p where "rstrip [c] s = p @ [c]"
    by (auto simp: suffix_def)
  then have "rev (rstrip [c] s) = c # rev p"
    by simp
  then have eq: "dropWhile (\<lambda>x. x = c) (rev s) = c # rev p"
    by (simp add: rstrip_def)
  then have "dropWhile (\<lambda>x. x = c) (rev s) \<noteq> []"
    by simp
  then have "\<not> (\<lambda>x. x = c) (hd (dropWhile (\<lambda>x. x = c) (rev s)))"
    by (rule hd_dropWhile)
  with eq show False
    by simp
qed

lemma try_body_shape:
  assumes "try_body got = Inr d"
  shows "(\<exists>v. d = response_reply v) \<or> (\<exists>e. d = error_reply e)"
proof (cases got)
  case (Inl e)
  with assms show ?thesis by simp
next
  case (Inr resp)
  show ?thesis
  proof (cases "raise_for_status resp")
    case Inl
    with assms Inr show ?thesis by (simp add: try_body_def)
  next
    case ok: (Inr u)
    show ?thesis
    proof (cases "json resp")
      case Inl
      with assms Inr ok show ?thesis by (simp add: try_body_def)
    next
      case data: (Inr response_data)
      show ?thesis
      proof (cases "py_contains ''result'' response_data")
        case Inl
        with assms Inr ok data show ?thesis by (simp add: try_body_def)
      next
        case found: (Inr b)
        show ?thesis
        proof (cases b)
          case True
          with assms Inr ok data found show ?thesis
            by (cases "py_getitem response_data ''result''") (auto simp: try_body_def)
        next
          case False
          with assms Inr ok data found show ?thesis by (auto simp: try_body_def)
        qed
      qed
    qed
  qed
qed

lemma send_message_loop_shape:
  "(\<exists>v. snd (send_message_loop self message cinfo net as) = response_reply v) \<or>
   (\<exists>e. snd (send_message_loop self message cinfo net as) = error_reply e)"
proof (induction as)
  case Nil
  show ?case by auto
next
  case (Cons attempt rest)
  show ?case
  proof (cases "try_body (net attempt)")
    case (Inr d)
    with try_body_shape[OF Inr] show ?thesis by simp
  next
    case (Inl e)
    show ?thesis
    proof (cases e)
      case RequestException
      with Inl Cons show ?thesis
        by (cases "send_message_loop self message cinfo net rest") simp
    next
      case (OtherException m)
      with Inl show ?thesis by auto
    qed
  qed
qed

text \<open>
  Two facts on what the \<^verbatim>\<open>try\<close> block does with bodies that are not as expected. A body
  that is \<^verbatim>\<open>null\<close>, a boolean or a number makes the test for \<^verbatim>\<open>"result"\<close> raise a
  \<^verbatim>\<open>TypeError\<close>. And where \<^verbatim>\<open>response.json()\<close> raises a \<^verbatim>\<open>RequestException\<close> (as
  it does for a body that is no JSON), the first \<^verbatim>\<open>except\<close> clause catches it and the
  attempt is retried.
\<close>

lemma try_body_not_container:
  assumes "\<not> (400 \<le> status_code r \<and> status_code r < 600)" and "json r = Inr body"
    and "body = PyNone \<or> (\<exists>b. body = PyBool b) \<or> (\<exists>n. body = PyInt n) \<or> (\<exists>x. body = PyFloat x)"
  shows "try_body (Inr r) =
           Inl (OtherException
                  (''argument of type '' @ quoted (type_name body) @ '' is not iterable''))"
  using assms by (auto simp: try_body_def raise_for_status_def py_contains_def)

lemma send_message_json_request_exception:
  assumes "\<forall>i<RETRY_ATTEMPTS. \<exists>r. net i = Inr r \<and> json r = Inl RequestException"
  shows "send_message self message cinfo net =
           ([send_request self message cinfo, Sleep RETRY_DELAY,
             send_request self message cinfo, Sleep RETRY_DELAY,
             send_request self message cinfo], error_reply DEFAULT_ERROR_MESSAGE)"
proof -
  have "try_body (Inr r) = Inl RequestException" if "json r = Inl RequestException" for r
    using that by (simp add: try_body_def raise_for_status_def)
  with assms have "\<forall>i<RETRY_ATTEMPTS. try_body (net i) = Inl RequestException"
    by auto
  then show ?thesis
    by (rule send_message_exhausted)
qed

section \<open>The claims\<close>

subsection \<open>C1: the chat input while the status is disconnected\<close>

text \<open>
  C1 says that a dispatch started while the connection status is Disconnected is a
  no-op: no message, User or Assistant, is appended to the transcript, and
  \<^verbatim>\<open>send_message\<close> is not called. That the widget is created disabled in that state
  is the precondition of the user interface; the claim is about what the flow does
  should a prompt arrive all the same. The source appends the user's message (line 227)
  before it tests \<^verbatim>\<open>api_status\<close> (line 234), so such a prompt does reach the
  transcript: from the initial session state, the prompt \<^verbatim>\<open>hello\<close> leaves a transcript
  of one user message.
\<close>

theorem chat_input_disconnected_counterexample:
  "api_status init_session_state = False \<and>
   messages init_session_state = [] \<and>
   messages (fst (chat_input_section init_session_state (Some ''hello'')
                    ''2025-01-01 10:00:00'' ''2025-01-01 10:00:01'' (\<lambda>i. Inl RequestException))) =
     [\<lparr>role = ''user'', content = PyStr ''hello'', timestamp = ''2025-01-01 10:00:00''\<rparr>]"
  by (simp add: init_session_state_def chat_input_section_def Let_def)

text \<open>
  C1 as amended: while \<^verbatim>\<open>api_status\<close> is \<^verbatim>\<open>False\<close>, the chat input makes no request and
  no pause (\<^verbatim>\<open>send_message\<close> is not called), appends no assistant message, asks for no
  rerun and changes nothing of the session state but the transcript, which gains the
  user's message when a non-empty prompt arrives and is unchanged otherwise.
\<close>

theorem chat_input_disconnected:
  assumes "\<not> api_status st"
  shows "chat_input_section st prompt now1 now2 net =
           (case prompt of
              None \<Rightarrow> st
            | Some p \<Rightarrow>
                if p = [] then st
                else st\<lparr>messages := messages st
                        @ [\<lparr>role = ''user'', content = PyStr p, timestamp = now1\<rparr>]\<rparr>,
            [], Finished)"
  using assms by (simp add: chat_input_section_def Let_def split: option.splits)

theorem chat_input_disconnected_witness:
  "chat_input_section
     \<lparr>messages = [], api_url = ''http://localhost:8000/'', api_status = False,
      api_client = Some (APIClient_init ''http://localhost:8000/'' ''sender-1''),
      customer_info = []\<rparr>
     (Some ''hi'') ''2025-01-01 10:00:00'' ''2025-01-01 10:00:01'' (\<lambda>i. Inl RequestException) =
   (\<lparr>messages = [\<lparr>role = ''user'', content = PyStr ''hi'', timestamp = ''2025-01-01 10:00:00''\<rparr>],
     api_url = ''http://localhost:8000/'', api_status = False,
     api_client = Some (APIClient_init ''http://localhost:8000/'' ''sender-1''),
     customer_info = []\<rparr>,
    [], Finished)"
proof -
  have h: "\<not> api_status \<lparr>messages = [], api_url = ''http://localhost:8000/'', api_status = False,
      api_client = Some (APIClient_init ''http://localhost:8000/'' ''sender-1''),
      customer_info = []\<rparr>"
    by simp
  show ?thesis
    using chat_input_disconnected[OF h, of "Some ''hi''" "''2025-01-01 10:00:00''"
        "''2025-01-01 10:00:01''" "\<lambda>i. Inl RequestException"]
    by simp
qed

subsection \<open>C2: an exception that is no \<^verbatim>\<open>RequestException\<close>\<close>

text \<open>
  C2 says that a send which meets an unexpected failure that is no transport failure,
  for example a response body that is not parseable JSON, returns an \<^verbatim>\<open>Error: ...\<close>
  reply at once, after exactly one attempt and with no retry. At the claim's own example
  this fails: for such a body \<^verbatim>\<open>response.json()\<close> (line 53) raises requests'
  \<^verbatim>\<open>JSONDecodeError\<close>, which is a \<^verbatim>\<open>RequestException\<close>, so the first \<^verbatim>\<open>except\<close> clause
  (line 61) catches it and the attempt is retried. A server that answers every attempt
  with status 200 and such a body gets three requests with two pauses, and the reply is
  the generic error.
\<close>

theorem send_message_not_json_counterexample:
  "send_message (APIClient_init ''http://localhost:8000/'' ''sender-1'') ''hello'' []
     (\<lambda>i. Inr \<lparr>status_code = 200, json = Inl RequestException\<rparr>) =
   ([HttpGet ''http://localhost:8000/response''
       [(''query'', Text ''hello''), (''senderId'', Text ''sender-1''),
        (''customer_info'', JsonDumps [])] 30,
     Sleep 1,
     HttpGet ''http://localhost:8000/response''
       [(''query'', Text ''hello''), (''senderId'', Text ''sender-1''),
        (''customer_info'', JsonDumps [])] 30,
     Sleep 1,
     HttpGet ''http://localhost:8000/response''
       [(''query'', Text ''hello''), (''senderId'', Text ''sender-1''),
        (''customer_info'', JsonDumps [])] 30],
    \<lparr>response_key = None,
     error_key = Some ''An error occurred while communicating with the API''\<rparr>)"
  unfolding send_message_def range_RETRY_ATTEMPTS
  by (simp add: try_body_def raise_for_status_def error_reply_def send_request_def
      APIClient_init_def rstrip_def RETRY_ATTEMPTS_def RETRY_DELAY_def DEFAULT_ERROR_MESSAGE_def)

text \<open>
  C2 as amended: when an attempt of \<^verbatim>\<open>send_message\<close> (the first one, or one reached
  after \<open>k < 3\<close> attempts that were retried) raises an exception that is not a
  \<^verbatim>\<open>RequestException\<close>, the method returns the error \<^verbatim>\<open>"Error: "\<close> followed by the
  exception's text at once: that attempt is made exactly once, it is not retried, and
  no pause and no request follows it. The effects are the \<open>k\<close> earlier requests, each
  followed by its pause of 1, and the failing request; on the first attempt
  (\<open>k = 0\<close>) that is exactly one request and no pause.
\<close>

theorem send_message_unexpected_failure:
  assumes "k < 3" and "\<forall>i<k. try_body (net i) = Inl RequestException"
    and "try_body (net k) = Inl (OtherException m)"
  shows "send_message self message cinfo net =
           (concat (replicate k [send_request self message cinfo, Sleep 1])
              @ [send_request self message cinfo],
            \<lparr>response_key = None, error_key = Some (''Error: '' @ m)\<rparr>)"
proof -
  from assms(1) have "k < RETRY_ATTEMPTS"
    by (simp add: RETRY_ATTEMPTS_def)
  from send_message_other[OF this assms(2,3)] show ?thesis
    by (simp add: RETRY_DELAY_def error_reply_def)
qed

theorem send_message_unexpected_failure_witness:
  "send_message (APIClient_init ''http://localhost:8000/'' ''sender-1'') ''hello'' []
     (\<lambda>i. Inr \<lparr>status_code = 200, json = Inr (PyInt 42)\<rparr>) =
   ([HttpGet ''http://localhost:8000/response''
       [(''query'', Text ''hello''), (''senderId'', Text ''sender-1''),
        (''customer_info'', JsonDumps [])] 30],
    \<lparr>response_key = None,
     error_key = Some ''Error: argument of type 'int' is not iterable''\<rparr>) \<and>
   send_message (APIClient_init ''http://localhost:8000/'' ''sender-1'') ''hello'' []
     (\<lambda>i. if i = 0 then Inl RequestException
           else Inr \<lparr>status_code = 200, json = Inr (PyInt 42)\<rparr>) =
   ([HttpGet ''http://localhost:8000/response''
       [(''query'', Text ''hello''), (''senderId'', Text ''sender-1''),
        (''customer_info'', JsonDumps [])] 30,
     Sleep 1,
     HttpGet ''http://localhost:8000/response''
       [(''query'', Text ''hello''), (''senderId'', Text ''sender-1''),
        (''customer_info'', JsonDumps [])] 30],
    \<lparr>response_key = None,
     error_key = Some ''Error: argument of type 'int' is not iterable''\<rparr>)"
proof -
  let ?client = "APIClient_init ''http://localhost:8000/'' ''sender-1''"
  let ?net1 = "\<lambda>i::nat. Inr \<lparr>status_code = 200, json = Inr (PyInt 42)\<rparr> :: exn + response"
  let ?net2 = "\<lambda>i::nat. if i = 0 then Inl RequestException
           else (Inr \<lparr>status_code = 200, json = Inr (PyInt 42)\<rparr> :: exn + response)"
  have k0: "(0::nat) < 3" and k1: "(1::nat) < 3" by simp_all
  have a1: "\<forall>i<0. try_body (?net1 i) = Inl RequestException" by simp
  have a2: "\<forall>i<1. try_body (?net2 i) = Inl RequestException" by simp
  have b1: "try_body (?net1 0) = Inl (OtherException ''argument of type 'int' is not iterable'')"
    by (simp add: try_body_def raise_for_status_def py_contains_def type_name_def quoted_def)
  have b2: "try_body (?net2 1) = Inl (OtherException ''argument of type 'int' is not iterable'')"
    by (simp add: try_body_def raise_for_status_def py_contains_def type_name_def quoted_def)
  show ?thesis
    using send_message_unexpected_failure[OF k0 a1 b1, of ?client "''hello''" "[]"]
      send_message_unexpected_failure[OF k1 a2 b2, of ?client "''hello''" "[]"]
    by (simp add: send_request_def APIClient_init_def rstrip_def)
qed

subsection \<open>C3: a response without \<^verbatim>\<open>"result"\<close>\<close>

text \<open>
  C3 says that every response with status 200 whose JSON body lacks the field
  \<^verbatim>\<open>"result"\<close> gives the error for a malformed response, which is
  \<^verbatim>\<open>Invalid response format from API\<close>, after one attempt. The source tests
  \<^verbatim>\<open>"result" in response_data\<close> on whatever \<^verbatim>\<open>response.json()\<close> returned. For the
  JSON body \<^verbatim>\<open>null\<close> that test raises a \<^verbatim>\<open>TypeError\<close>, which the second \<^verbatim>\<open>except\<close>
  clause reports as an \<^verbatim>\<open>Error: ...\<close> reply, not as the malformed-response reply.
\<close>

theorem send_message_null_body_counterexample:
  "snd (send_message (APIClient_init ''http://localhost:8000/'' ''sender-1'') ''hello'' []
          (\<lambda>i. Inr \<lparr>status_code = 200, json = Inr PyNone\<rparr>)) =
     \<lparr>response_key = None,
      error_key = Some ''Error: argument of type 'NoneType' is not iterable''\<rparr> \<and>
   snd (send_message (APIClient_init ''http://localhost:8000/'' ''sender-1'') ''hello'' []
          (\<lambda>i. Inr \<lparr>status_code = 200, json = Inr PyNone\<rparr>)) \<noteq>
     \<lparr>response_key = None, error_key = Some ''Invalid response format from API''\<rparr>"
  unfolding send_message_def range_RETRY_ATTEMPTS
  by (simp add: try_body_def raise_for_status_def py_contains_def type_name_def quoted_def
      error_reply_def)

text \<open>
  C3 as amended: for every response with status 200 whose JSON body is an object
  without the key \<^verbatim>\<open>"result"\<close>, \<^verbatim>\<open>send_message\<close> returns the error
  \<^verbatim>\<open>Invalid response format from API\<close> at once and without a retry: the attempt that
  received the response (the first one, or one reached after \<open>k < 3\<close> attempts that were
  retried) is the last effect, and no pause and no request follows it. Received on the
  first attempt (\<open>k = 0\<close>) that is exactly one request and no pause.
\<close>

theorem send_message_missing_result:
  assumes "k < 3" and "\<forall>i<k. try_body (net i) = Inl RequestException"
    and "net k = Inr r" and "status_code r = 200" and "json r = Inr (PyDict kvs)"
    and "''result'' \<notin> fst ` set kvs"
  shows "send_message self message cinfo net =
           (concat (replicate k [send_request self message cinfo, Sleep 1])
              @ [send_request self message cinfo],
            \<lparr>response_key = None, error_key = Some ''Invalid response format from API''\<rparr>)"
proof -
  from assms(1) have k: "k < RETRY_ATTEMPTS"
    by (simp add: RETRY_ATTEMPTS_def)
  from assms(6) have "py_contains ''result'' (PyDict kvs) = Inr False"
    by (simp add: py_contains_def)
  with assms(3-5) have "try_body (net k) = Inr (error_reply ''Invalid response format from API'')"
    by (simp add: try_body_not_contained)
  from send_message_returns[OF k assms(2) this] show ?thesis
    by (simp add: RETRY_DELAY_def error_reply_def)
qed

theorem send_message_missing_result_witness:
  "send_message (APIClient_init ''http://localhost:8000/'' ''sender-1'') ''hello'' []
     (\<lambda>i. Inr \<lparr>status_code = 200, json = Inr (PyDict [(''answer'', PyStr ''hi there'')])\<rparr>) =
   ([HttpGet ''http://localhost:8000/response''
       [(''query'', Text ''hello''), (''senderId'', Text ''sender-1''),
        (''customer_info'', JsonDumps [])] 30],
    \<lparr>response_key = None, error_key = Some ''Invalid response format from API''\<rparr>)"
proof -
  let ?r = "\<lparr>status_code = 200, json = Inr (PyDict [(''answer'', PyStr ''hi there'')])\<rparr>"
  let ?net = "\<lambda>i::nat. Inr ?r :: exn + response"
  have h0: "(0::nat) < 3" by simp
  have h1: "\<forall>i<0. try_body (?net i) = Inl RequestException" by simp
  have h2: "?net 0 = Inr ?r" by simp
  have h3: "status_code ?r = 200" by simp
  have h4: "json ?r = Inr (PyDict [(''answer'', PyStr ''hi there'')])" by simp
  have h5: "''result'' \<notin> fst ` set [(''answer'', PyStr ''hi there'')]" by simp
  show ?thesis
    using send_message_missing_result[OF h0 h1 h2 h3 h4 h5,
        of "APIClient_init ''http://localhost:8000/'' ''sender-1''" "''hello''" "[]"]
    by (simp add: send_request_def APIClient_init_def rstrip_def)
qed

subsection \<open>C4: a response with a failure status\<close>

text \<open>
  C4: a response of \<^verbatim>\<open>send_message\<close> whose status is a failure status (400 to 599) is
  treated as a transport failure is. First, replacing every such response of the
  network by a raised \<^verbatim>\<open>RequestException\<close> changes neither the reply nor the effects.
  Second, when each of the three attempts gets such a response, the method makes three
  requests with a pause of 1 between them and returns the generic error; it does not
  return at the first of them.
\<close>

theorem send_message_http_failure_retried:
  "send_message self message cinfo net =
     send_message self message cinfo
       (\<lambda>i. case net i of
               Inl e \<Rightarrow> Inl e
             | Inr r \<Rightarrow>
                 if 400 \<le> status_code r \<and> status_code r < 600 then Inl RequestException
                 else Inr r) \<and>
   ((\<forall>i<3. \<exists>r. net i = Inr r \<and> 400 \<le> status_code r \<and> status_code r < 600) \<longrightarrow>
    send_message self message cinfo net =
      ([send_request self message cinfo, Sleep 1, send_request self message cinfo, Sleep 1,
        send_request self message cinfo],
       \<lparr>response_key = None,
        error_key = Some ''An error occurred while communicating with the API''\<rparr>))"
proof (intro conjI impI)
  let ?net' = "\<lambda>i. case net i of
               Inl e \<Rightarrow> Inl e
             | Inr r \<Rightarrow>
                 if 400 \<le> status_code r \<and> status_code r < 600 then Inl RequestException
                 else Inr r"
  have "\<forall>i. try_body (net i) = try_body (?net' i)"
    by (auto simp: try_body_http_failure split: sum.splits)
  then show "send_message self message cinfo net = send_message self message cinfo ?net'"
    unfolding send_message_def by (rule send_message_loop_cong)
next
  assume "\<forall>i<3. \<exists>r. net i = Inr r \<and> 400 \<le> status_code r \<and> status_code r < 600"
  then have "\<forall>i<RETRY_ATTEMPTS. try_body (net i) = Inl RequestException"
    by (auto simp: RETRY_ATTEMPTS_def try_body_http_failure)
  then show "send_message self message cinfo net =
      ([send_request self message cinfo, Sleep 1, send_request self message cinfo, Sleep 1,
        send_request self message cinfo],
       \<lparr>response_key = None,
        error_key = Some ''An error occurred while communicating with the API''\<rparr>)"
    by (simp add: send_message_exhausted RETRY_DELAY_def error_reply_def DEFAULT_ERROR_MESSAGE_def)
qed

theorem send_message_http_failure_retried_witness:
  "send_message (APIClient_init ''http://localhost:8000/'' ''sender-1'') ''hello'' []
     (\<lambda>i. Inr \<lparr>status_code = 503, json = Inr (PyDict [(''result'', PyStr ''hi there'')])\<rparr>) =
   ([HttpGet ''http://localhost:8000/response''
       [(''query'', Text ''hello''), (''senderId'', Text ''sender-1''),
        (''customer_info'', JsonDumps [])] 30,
     Sleep 1,
     HttpGet ''http://localhost:8000/response''
       [(''query'', Text ''hello''), (''senderId'', Text ''sender-1''),
        (''customer_info'', JsonDumps [])] 30,
     Sleep 1,
     HttpGet ''http://localhost:8000/response''
       [(''query'', Text ''hello''), (''senderId'', Text ''sender-1''),
        (''customer_info'', JsonDumps [])] 30],
    \<lparr>response_key = None,
     error_key = Some ''An error occurred while communicating with the API''\<rparr>)"
proof -
  let ?net = "\<lambda>i::nat. Inr \<lparr>status_code = 503, json = Inr (PyDict [(''result'', PyStr ''hi there'')])\<rparr>
                :: exn + response"
  have h: "\<forall>i<3. \<exists>r. ?net i = Inr r \<and> 400 \<le> status_code r \<and> status_code r < 600"
    by simp
  show ?thesis
    using send_message_http_failure_retried[of "APIClient_init ''http://localhost:8000/'' ''sender-1''"
        "''hello''" "[]" ?net, THEN conjunct2, THEN mp, OF h]
    by (simp add: send_request_def APIClient_init_def rstrip_def)
qed

subsection \<open>C5: success after \<open>N < 3\<close> transport failures\<close>

text \<open>
  C5: for every \<open>N < 3\<close>, when the first \<open>N\<close> attempts fail with a transport failure
  and attempt \<open>N + 1\<close> succeeds, the method returns the success of that attempt, and the
  effects are \<open>N\<close> times a request followed by a pause of 1, then the last request:
  exactly \<open>N\<close> pauses, none for \<open>N = 0\<close>. For \<^verbatim>\<open>test_connection\<close> the attempt succeeds
  when its response has status 200, whatever its body, and the result is \<^verbatim>\<open>True\<close>. For
  \<^verbatim>\<open>send_message\<close> it succeeds when the response has status 200 and its body is a JSON
  object with the key \<^verbatim>\<open>"result"\<close>, and the reply holds the value under that key.
\<close>

theorem retry_then_success:
  assumes "N < 3"
  shows "((\<forall>i<N. pnet i = Inl RequestException) \<and> pnet N = Inr pr \<and> status_code pr = 200 \<longrightarrow>
          test_connection self pnet =
            (concat (replicate N [test_request self, Sleep 1]) @ [test_request self], Inr True)) \<and>
         ((\<forall>i<N. net i = Inl RequestException) \<and> net N = Inr r \<and> status_code r = 200 \<and>
          json r = Inr (PyDict kvs) \<and> map_of kvs ''result'' = Some v \<longrightarrow>
          send_message self message cinfo net =
            (concat (replicate N [send_request self message cinfo, Sleep 1])
               @ [send_request self message cinfo],
             \<lparr>response_key = Some v, error_key = None\<rparr>))"
proof (intro conjI impI)
  from assms have k: "N < RETRY_ATTEMPTS"
    by (simp add: RETRY_ATTEMPTS_def)
  {
    assume p: "(\<forall>i<N. pnet i = Inl RequestException) \<and> pnet N = Inr pr \<and> status_code pr = 200"
    then have "\<forall>i<N. pnet i = Inl RequestException" and "pnet N = Inr pr" and "status_code pr = 200"
      by simp_all
    from test_connection_response[OF k this(1,2)] this(3)
    show "test_connection self pnet =
            (concat (replicate N [test_request self, Sleep 1]) @ [test_request self], Inr True)"
      by (simp add: RETRY_DELAY_def)
  }
  {
    assume s: "(\<forall>i<N. net i = Inl RequestException) \<and> net N = Inr r \<and> status_code r = 200 \<and>
          json r = Inr (PyDict kvs) \<and> map_of kvs ''result'' = Some v"
    then have "\<forall>i<N. try_body (net i) = Inl RequestException"
      by simp
    moreover from s have "try_body (net N) = Inr (response_reply v)"
      by (simp add: try_body_result)
    ultimately show "send_message self message cinfo net =
            (concat (replicate N [send_request self message cinfo, Sleep 1])
               @ [send_request self message cinfo],
             \<lparr>response_key = Some v, error_key = None\<rparr>)"
      using send_message_returns[OF k, of net "response_reply v" self message cinfo]
      by (simp add: RETRY_DELAY_def response_reply_def)
  }
qed

theorem retry_then_success_witness:
  "test_connection (APIClient_init ''http://localhost:8000/'' ''sender-1'')
     (\<lambda>i. Inr \<lparr>status_code = 200, json = Inl RequestException\<rparr>) =
   ([HttpGet ''http://localhost:8000/test'' [] 5], Inr True) \<and>
   test_connection (APIClient_init ''http://localhost:8000/'' ''sender-1'')
     (\<lambda>i. if i < 2 then Inl RequestException
           else Inr \<lparr>status_code = 200, json = Inr (PyStr ''ok'')\<rparr>) =
   ([HttpGet ''http://localhost:8000/test'' [] 5, Sleep 1,
     HttpGet ''http://localhost:8000/test'' [] 5, Sleep 1,
     HttpGet ''http://localhost:8000/test'' [] 5], Inr True) \<and>
   send_message (APIClient_init ''http://localhost:8000/'' ''sender-1'') ''hello'' []
     (\<lambda>i. if i < 2 then Inl RequestException
           else Inr \<lparr>status_code = 200,
                     json = Inr (PyDict [(''result'', PyStr ''hi there'')])\<rparr>) =
   ([HttpGet ''http://localhost:8000/response''
       [(''query'', Text ''hello''), (''senderId'', Text ''sender-1''),
        (''customer_info'', JsonDumps [])] 30,
     Sleep 1,
     HttpGet ''http://localhost:8000/response''
       [(''query'', Text ''hello''), (''senderId'', Text ''sender-1''),
        (''customer_info'', JsonDumps [])] 30,
     Sleep 1,
     HttpGet ''http://localhost:8000/response''
       [(''query'', Text ''hello''), (''senderId'', Text ''sender-1''),
        (''customer_info'', JsonDumps [])] 30],
    \<lparr>response_key = Some (PyStr ''hi there''), error_key = None\<rparr>)"
proof -
  let ?client = "APIClient_init ''http://localhost:8000/'' ''sender-1''"
  let ?p0 = "\<lparr>status_code = 200, json = Inl RequestException\<rparr>"
  let ?pnet0 = "\<lambda>i::nat. Inr ?p0 :: exn + response"
  let ?p2 = "\<lparr>status_code = 200, json = Inr (PyStr ''ok'')\<rparr>"
  let ?pnet2 = "\<lambda>i::nat. if i < 2 then Inl RequestException else (Inr ?p2 :: exn + response)"
  let ?r = "\<lparr>status_code = 200, json = Inr (PyDict [(''result'', PyStr ''hi there'')])\<rparr>"
  let ?net = "\<lambda>i::nat. if i < 2 then Inl RequestException else (Inr ?r :: exn + response)"
  have n0: "(0::nat) < 3" and n2: "(2::nat) < 3" by simp_all
  have p0: "(\<forall>i<0. ?pnet0 i = Inl RequestException) \<and> ?pnet0 0 = Inr ?p0 \<and> status_code ?p0 = 200"
    by simp
  have p2: "(\<forall>i<2. ?pnet2 i = Inl RequestException) \<and> ?pnet2 2 = Inr ?p2 \<and> status_code ?p2 = 200"
    by simp
  have s2: "(\<forall>i<2. ?net i = Inl RequestException) \<and> ?net 2 = Inr ?r \<and> status_code ?r = 200 \<and>
      json ?r = Inr (PyDict [(''result'', PyStr ''hi there'')]) \<and>
      map_of [(''result'', PyStr ''hi there'')] ''result'' = Some (PyStr ''hi there'')"
    by simp
  show ?thesis
    using retry_then_success[OF n0, of ?pnet0 ?p0 ?client, THEN conjunct1, THEN mp, OF p0]
      retry_then_success[OF n2, of ?pnet2 ?p2 ?client, THEN conjunct1, THEN mp, OF p2]
      retry_then_success[OF n2, of _ _ ?client ?net ?r "[(''result'', PyStr ''hi there'')]"
        "PyStr ''hi there''" "''hello''" "[]", THEN conjunct2, THEN mp, OF s2]
    by (simp add: send_request_def test_request_def APIClient_init_def rstrip_def numeral_2_eq_2)
qed

subsection \<open>C6: every attempt fails\<close>

text \<open>
  C6: for every \<open>N \<ge> 3\<close>, when the first \<open>N\<close> attempts all fail with a transport
  failure, \<^verbatim>\<open>test_connection\<close> returns \<^verbatim>\<open>False\<close> and \<^verbatim>\<open>send_message\<close> returns the error
  \<^verbatim>\<open>An error occurred while communicating with the API\<close>, each after exactly three
  requests (and the two pauses between them).
\<close>

theorem retries_exhausted:
  assumes "3 \<le> N" and "\<forall>i<N. net i = Inl RequestException"
  shows "test_connection self net =
           ([test_request self, Sleep 1, test_request self, Sleep 1, test_request self],
            Inr False) \<and>
         send_message self message cinfo net =
           ([send_request self message cinfo, Sleep 1, send_request self message cinfo, Sleep 1,
             send_request self message cinfo],
            \<lparr>response_key = None,
             error_key = Some ''An error occurred while communicating with the API''\<rparr>)"
proof
  from assms have all: "\<forall>i<RETRY_ATTEMPTS. net i = Inl RequestException"
    by (simp add: RETRY_ATTEMPTS_def)
  then show "test_connection self net =
           ([test_request self, Sleep 1, test_request self, Sleep 1, test_request self],
            Inr False)"
    by (simp add: test_connection_exhausted RETRY_DELAY_def)
  from all have "\<forall>i<RETRY_ATTEMPTS. try_body (net i) = Inl RequestException"
    by simp
  then show "send_message self message cinfo net =
           ([send_request self message cinfo, Sleep 1, send_request self message cinfo, Sleep 1,
             send_request self message cinfo],
            \<lparr>response_key = None,
             error_key = Some ''An error occurred while communicating with the API''\<rparr>)"
    by (simp add: send_message_exhausted RETRY_DELAY_def error_reply_def DEFAULT_ERROR_MESSAGE_def)
qed

theorem retries_exhausted_witness:
  "test_connection (APIClient_init ''http://localhost:8000/'' ''sender-1'')
     (\<lambda>i. Inl RequestException) =
   ([HttpGet ''http://localhost:8000/test'' [] 5, Sleep 1,
     HttpGet ''http://localhost:8000/test'' [] 5, Sleep 1,
     HttpGet ''http://localhost:8000/test'' [] 5], Inr False) \<and>
   snd (send_message (APIClient_init ''http://localhost:8000/'' ''sender-1'') ''hello'' []
          (\<lambda>i. Inl RequestException)) =
     \<lparr>response_key = None,
      error_key = Some ''An error occurred while communicating with the API''\<rparr>"
proof -
  have h1: "(3::nat) \<le> 5" by simp
  have h2: "\<forall>i<5. (\<lambda>i::nat. Inl RequestException :: exn + response) i = Inl RequestException"
    by simp
  show ?thesis
    using retries_exhausted[OF h1 h2,
        of "APIClient_init ''http://localhost:8000/'' ''sender-1''" "''hello''" "[]"]
    by (simp add: test_request_def APIClient_init_def rstrip_def)
qed

subsection \<open>C7: a dispatch whose send returns an error\<close>

text \<open>
  C7: when the chat input dispatches a prompt and \<^verbatim>\<open>send_message\<close> returns an error
  \<open>e\<close>, the session state changes in its transcript only: \<^verbatim>\<open>api_status\<close>, \<^verbatim>\<open>api_url\<close>,
  \<^verbatim>\<open>api_client\<close> and \<^verbatim>\<open>customer_info\<close> are as before. The transcript gains the user's
  message and one assistant message whose text is the marker, a space and \<open>e\<close>.
\<close>

theorem chat_input_send_error:
  assumes "api_status st" and "api_client st = Some client" and "p \<noteq> []"
    and "send_message client p (customer_info st) net = (effs, r)" and "error_key r = Some e"
  shows "chat_input_section st (Some p) now1 now2 net =
           (st\<lparr>messages := messages st
                  @ [\<lparr>role = ''user'', content = PyStr p, timestamp = now1\<rparr>,
                     \<lparr>role = ''assistant'', content = PyStr (error_marker @ '' '' @ e),
                      timestamp = now2\<rparr>]\<rparr>,
            effs, Rerun) \<and>
         api_status (fst (chat_input_section st (Some p) now1 now2 net)) = api_status st \<and>
         api_url (fst (chat_input_section st (Some p) now1 now2 net)) = api_url st \<and>
         api_client (fst (chat_input_section st (Some p) now1 now2 net)) = api_client st \<and>
         customer_info (fst (chat_input_section st (Some p) now1 now2 net)) = customer_info st"
  using assms by (simp add: chat_input_section_def Let_def reply_content_def)

theorem chat_input_send_error_witness:
  "chat_input_section
     \<lparr>messages = [], api_url = ''http://localhost:8000/'', api_status = True,
      api_client = Some (APIClient_init ''http://localhost:8000/'' ''sender-1''),
      customer_info = []\<rparr>
     (Some ''hello'') ''2025-01-01 10:00:00'' ''2025-01-01 10:00:33'' (\<lambda>i. Inl RequestException) =
   (\<lparr>messages =
       [\<lparr>role = ''user'', content = PyStr ''hello'', timestamp = ''2025-01-01 10:00:00''\<rparr>,
        \<lparr>role = ''assistant'',
         content = PyStr ([CHR 0xF0, CHR 0x9F, CHR 0x9A, CHR 0xAB]
                          @ '' An error occurred while communicating with the API''),
         timestamp = ''2025-01-01 10:00:33''\<rparr>],
     api_url = ''http://localhost:8000/'', api_status = True,
     api_client = Some (APIClient_init ''http://localhost:8000/'' ''sender-1''),
     customer_info = []\<rparr>,
    [HttpGet ''http://localhost:8000/response''
       [(''query'', Text ''hello''), (''senderId'', Text ''sender-1''),
        (''customer_info'', JsonDumps [])] 30,
     Sleep 1,
     HttpGet ''http://localhost:8000/response''
       [(''query'', Text ''hello''), (''senderId'', Text ''sender-1''),
        (''customer_info'', JsonDumps [])] 30,
     Sleep 1,
     HttpGet ''http://localhost:8000/response''
       [(''query'', Text ''hello''), (''senderId'', Text ''sender-1''),
        (''customer_info'', JsonDumps [])] 30],
    Rerun)"
proof -
  let ?client = "APIClient_init ''http://localhost:8000/'' ''sender-1''"
  let ?st = "\<lparr>messages = [], api_url = ''http://localhost:8000/'', api_status = True,
      api_client = Some ?client, customer_info = []\<rparr>"
  let ?net = "\<lambda>i::nat. Inl RequestException :: exn + response"
  let ?req = "send_request ?client ''hello'' []"
  have h1: "api_status ?st" by simp
  have h2: "api_client ?st = Some ?client" by simp
  have h3: "''hello'' \<noteq> []" by simp
  have "\<forall>i<RETRY_ATTEMPTS. try_body (?net i) = Inl RequestException" by simp
  then have h4: "send_message ?client ''hello'' (customer_info ?st) ?net =
      ([?req, Sleep RETRY_DELAY, ?req, Sleep RETRY_DELAY, ?req], error_reply DEFAULT_ERROR_MESSAGE)"
    by (simp add: send_message_exhausted)
  have h5: "error_key (error_reply DEFAULT_ERROR_MESSAGE) = Some DEFAULT_ERROR_MESSAGE"
    by (simp add: error_reply_def)
  show ?thesis
    using chat_input_send_error[OF h1 h2 h3 h4 h5, of "''2025-01-01 10:00:00''"
        "''2025-01-01 10:00:33''", THEN conjunct1]
    by (simp add: send_request_def APIClient_init_def rstrip_def RETRY_DELAY_def
        DEFAULT_ERROR_MESSAGE_def error_marker_def)
qed

subsection \<open>C8: a probe that receives a response\<close>

text \<open>
  C8: on whichever attempt \<open>k\<close> of \<^verbatim>\<open>test_connection\<close> a response is received (the
  attempts before it having failed with transport failures), the method returns at
  once, with \<^verbatim>\<open>True\<close> exactly when the status is 200: the request of attempt \<open>k\<close> is
  the last effect. In particular a response with another status on the first attempt
  gives \<^verbatim>\<open>False\<close> after one request and no pause.
\<close>

theorem probe_response_decides:
  assumes "k < 3" and "\<forall>i<k. net i = Inl RequestException" and "net k = Inr r"
  shows "test_connection self net =
           (concat (replicate k [test_request self, Sleep 1]) @ [test_request self],
            Inr (status_code r = 200))"
proof -
  from assms(1) have "k < RETRY_ATTEMPTS"
    by (simp add: RETRY_ATTEMPTS_def)
  from test_connection_response[OF this assms(2,3)] show ?thesis
    by (simp add: RETRY_DELAY_def)
qed

theorem probe_response_decides_witness:
  "test_connection (APIClient_init ''http://localhost:8000/'' ''sender-1'')
     (\<lambda>i. if i = 0 then Inr \<lparr>status_code = 404, json = Inl RequestException\<rparr>
           else Inr \<lparr>status_code = 200, json = Inr (PyDict [])\<rparr>) =
   ([HttpGet ''http://localhost:8000/test'' [] 5], Inr False)"
proof -
  let ?net = "\<lambda>i::nat. if i = 0 then Inr \<lparr>status_code = 404, json = Inl RequestException\<rparr>
           else (Inr \<lparr>status_code = 200, json = Inr (PyDict [])\<rparr> :: exn + response)"
  have h1: "(0::nat) < 3" by simp
  have h2: "\<forall>i<0. ?net i = Inl RequestException" by simp
  have h3: "?net 0 = Inr \<lparr>status_code = 404, json = Inl RequestException\<rparr>" by simp
  show ?thesis
    using probe_response_decides[OF h1 h2 h3,
        of "APIClient_init ''http://localhost:8000/'' ''sender-1''"]
    by (simp add: test_request_def APIClient_init_def rstrip_def)
qed

subsection \<open>C9: the base URL\<close>

text \<open>
  C9: the constructor strips all trailing \<^verbatim>\<open>/\<close> from the URL it is given: the URL is
  the stored base followed by slashes only, and the stored base does not end in a slash.
  Every request of \<^verbatim>\<open>test_connection\<close> goes to the base followed by \<^verbatim>\<open>/test\<close> and every
  request of \<^verbatim>\<open>send_message\<close> to the base followed by \<^verbatim>\<open>/response\<close>, with no doubled
  slash where the two are joined.
\<close>

theorem base_url_normalised:
  "(\<exists>n. url = base_url (APIClient_init url uuid4) @ replicate n CHR ''/'') \<and>
   \<not> suffix ''/'' (base_url (APIClient_init url uuid4)) \<and>
   set (request_urls (fst (test_connection (APIClient_init url uuid4) net))) =
     {base_url (APIClient_init url uuid4) @ ''/test''} \<and>
   set (request_urls (fst (send_message (APIClient_init url uuid4) message cinfo net))) =
     {base_url (APIClient_init url uuid4) @ ''/response''} \<and>
   \<not> suffix ''//test'' (base_url (APIClient_init url uuid4) @ ''/test'') \<and>
   \<not> suffix ''//response'' (base_url (APIClient_init url uuid4) @ ''/response'')"
proof (intro conjI)
  have base: "base_url (APIClient_init url uuid4) = rstrip ''/'' url"
    by (simp add: APIClient_init_def)
  show "\<exists>n. url = base_url (APIClient_init url uuid4) @ replicate n CHR ''/''"
    unfolding base by (rule rstrip_decompose)
  show no_slash: "\<not> suffix ''/'' (base_url (APIClient_init url uuid4))"
    unfolding base by (rule rstrip_no_trailing)
  show "set (request_urls (fst (test_connection (APIClient_init url uuid4) net))) =
     {base_url (APIClient_init url uuid4) @ ''/test''}"
    unfolding test_connection_def range_RETRY_ATTEMPTS by (simp only: request_urls_test_loop) simp
  show "set (request_urls (fst (send_message (APIClient_init url uuid4) message cinfo net))) =
     {base_url (APIClient_init url uuid4) @ ''/response''}"
    unfolding send_message_def range_RETRY_ATTEMPTS by (simp only: request_urls_send_loop) simp
  have "suffix (''/'' @ ''/test'') (base_url (APIClient_init url uuid4) @ ''/test'') =
        suffix ''/'' (base_url (APIClient_init url uuid4))"
    by (rule same_suffix_suffix)
  with no_slash show "\<not> suffix ''//test'' (base_url (APIClient_init url uuid4) @ ''/test'')"
    by simp
  have "suffix (''/'' @ ''/response'') (base_url (APIClient_init url uuid4) @ ''/response'') =
        suffix ''/'' (base_url (APIClient_init url uuid4))"
    by (rule same_suffix_suffix)
  with no_slash show "\<not> suffix ''//response'' (base_url (APIClient_init url uuid4) @ ''/response'')"
    by simp
qed

theorem base_url_normalised_witness:
  "base_url (APIClient_init ''http://localhost:8000//'' ''sender-1'') = ''http://localhost:8000'' \<and>
   set (request_urls (fst (test_connection (APIClient_init ''http://localhost:8000//'' ''sender-1'')
          (\<lambda>i. Inl RequestException)))) = {''http://localhost:8000/test''} \<and>
   set (request_urls (fst (send_message (APIClient_init ''http://localhost:8000//'' ''sender-1'')
          ''hello'' [] (\<lambda>i. Inl RequestException)))) = {''http://localhost:8000/response''}"
  using base_url_normalised[of "''http://localhost:8000//''" "''sender-1''"
      "\<lambda>i. Inl RequestException" "''hello''" "[]"]
  by (simp add: APIClient_init_def rstrip_def)

subsection \<open>C10: the reply has exactly one of the two keys\<close>

text \<open>
  C10: for every input, the dict that \<^verbatim>\<open>send_message\<close> returns holds either the key
  \<^verbatim>\<open>"response"\<close> or the key \<^verbatim>\<open>"error"\<close>, never both and never neither. So the case in
  which \<open>reply_content\<close> falls back to \<^verbatim>\<open>No response received\<close> (no \<^verbatim>\<open>"error"\<close> and no
  \<^verbatim>\<open>"response"\<close>) does not occur.
\<close>

theorem send_message_one_key:
  "((\<exists>v. snd (send_message self message cinfo net) = \<lparr>response_key = Some v, error_key = None\<rparr>) \<or>
    (\<exists>e. snd (send_message self message cinfo net) = \<lparr>response_key = None, error_key = Some e\<rparr>)) \<and>
   \<not> (error_key (snd (send_message self message cinfo net)) = None \<and>
      response_key (snd (send_message self message cinfo net)) = None)"
proof -
  have "(\<exists>v. snd (send_message self message cinfo net) = response_reply v) \<or>
        (\<exists>e. snd (send_message self message cinfo net) = error_reply e)"
    unfolding send_message_def by (rule send_message_loop_shape)
  then show ?thesis
    by (auto simp: response_reply_def error_reply_def)
qed

theorem send_message_one_key_witness:
  "((\<exists>v. snd (send_message (APIClient_init ''http://localhost:8000/'' ''sender-1'') ''hello'' []
              (\<lambda>i. Inr \<lparr>status_code = 200, json = Inr (PyStr ''the result is 42'')\<rparr>)) =
          \<lparr>response_key = Some v, error_key = None\<rparr>) \<or>
    (\<exists>e. snd (send_message (APIClient_init ''http://localhost:8000/'' ''sender-1'') ''hello'' []
              (\<lambda>i. Inr \<lparr>status_code = 200, json = Inr (PyStr ''the result is 42'')\<rparr>)) =
          \<lparr>response_key = None, error_key = Some e\<rparr>)) \<and>
   \<not> (error_key (snd (send_message (APIClient_init ''http://localhost:8000/'' ''sender-1'') ''hello'' []
              (\<lambda>i. Inr \<lparr>status_code = 200, json = Inr (PyStr ''the result is 42'')\<rparr>))) = None \<and>
      response_key (snd (send_message (APIClient_init ''http://localhost:8000/'' ''sender-1'') ''hello'' []
              (\<lambda>i. Inr \<lparr>status_code = 200, json = Inr (PyStr ''the result is 42'')\<rparr>))) = None)"
  by (rule send_message_one_key)

end
